theory Spec2Isabelle
  imports Complex_Main "HOL-Library.Word" "HOL-Library.Log_Nat" "HOL-Library.Monad_Syntax"
begin

unbundle bit_operations_syntax

section \<open>Values the layer state is made of\<close>

text \<open>
  A C++ \<open>float\<close>, as far as LayerBase.cpp uses one: a finite value, an infinity with its
  sign (\<open>True\<close> for the negative one), or a NaN. The two zeros are one value here:
  \<open>==\<close> does not tell them apart, and the only divisor of the code is a converted
  \<open>int\<close>, which is never the negative zero.
\<close>

datatype f32 = Finite rat | Infinity bool | NaN

text \<open>The \<open>==\<close> of two floats: a NaN is equal to nothing, itself included.\<close>

fun f32_eq :: "f32 \<Rightarrow> f32 \<Rightarrow> bool" where
  "f32_eq (Finite a) (Finite b) = (a = b)"
| "f32_eq (Infinity s) (Infinity t) = (s = t)"
| "f32_eq _ _ = False"

text \<open>
  \<open>Rect\<close> (ui/Rect.h is not under src/): four \<open>int32_t\<close> edges, held as integers.
  The second edge is \<open>top\<close> in the source.
\<close>

record Rect =
  left :: int
  top_edge :: int
  right :: int
  bottom :: int

text \<open>\<open>Region\<close>: the rectangles it is made of.\<close>

type_synonym Region = "Rect list"

text \<open>\<open>layer_state_t::matrix22_t\<close>, the argument of \<open>setMatrix\<close>.\<close>

record matrix22_t =
  dsdx :: f32
  dsdy :: f32
  dtdx :: f32
  dtdy :: f32

text \<open>
  Modelled from the spec: \<open>Transform\<close> (Transform.h and Transform.cpp are not under
  src/), "2x2 linear map + translation". \<open>set(tx, ty)\<close> stores the translation, which
  \<open>tx()\<close> and \<open>ty()\<close> read back; \<open>set(a, b, c, d)\<close> stores the linear map.
\<close>

record Transform =
  m_a :: f32
  m_b :: f32
  m_c :: f32
  m_d :: f32
  m_tx :: f32
  m_ty :: f32

definition tx :: "Transform \<Rightarrow> f32" where
  "tx t = m_tx t"

definition ty :: "Transform \<Rightarrow> f32" where
  "ty t = m_ty t"

definition Transform_set :: "f32 \<Rightarrow> f32 \<Rightarrow> Transform \<Rightarrow> Transform" where
  "Transform_set x y t = t\<lparr>m_tx := x, m_ty := y\<rparr>"

definition Transform_set_matrix :: "f32 \<Rightarrow> f32 \<Rightarrow> f32 \<Rightarrow> f32 \<Rightarrow> Transform \<Rightarrow> Transform" where
  "Transform_set_matrix a b c d t = t\<lparr>m_a := a, m_b := b, m_c := c, m_d := d\<rparr>"

text \<open>
  What LayerBase.cpp takes from headers that are not under src/: the enumerators it names,
  and the queries of \<open>Transform\<close> and \<open>Rect\<close> it calls. They are parameters of the model.
\<close>

record headers =
  eTransactionNeeded :: "32 word"
  eDontUpdateGeometryState :: "32 word"
  eVisibleRegion :: "32 word"
  eLayerHidden :: "32 word"
  SCALE :: "32 word"
  ROT_INVALID :: "32 word"
  NATIVE_WINDOW_TRANSFORM_FLIP_H :: "32 word"
  NATIVE_WINDOW_TRANSFORM_FLIP_V :: "32 word"
  NATIVE_WINDOW_TRANSFORM_ROT_90 :: "32 word"
  getType :: "Transform \<Rightarrow> 8 word"
  preserveRects :: "Transform \<Rightarrow> bool"
  getOrientation :: "Transform \<Rightarrow> 32 word"
  Transform_transform :: "Transform \<Rightarrow> Rect \<Rightarrow> Rect"
  Transform_inverse :: "Transform \<Rightarrow> Transform"
  Rect_transform :: "Rect \<Rightarrow> 32 word \<Rightarrow> int \<Rightarrow> int \<Rightarrow> Rect"

section \<open>The two snapshots of a layer\<close>

record Geometry =
  w :: "32 word"
  h :: "32 word"
  crop :: Rect

text \<open>
  \<open>State\<close>, for each of the two snapshots. The \<open>sequence\<close> is an \<open>int32_t\<close>, and
  \<open>sequence++\<close> is the addition of the machine.
\<close>

record State =
  active :: Geometry
  requested :: Geometry
  z :: "32 word"
  layerStack :: "32 word"
  alpha :: "8 word"
  flags :: "32 word"
  sequence :: "32 word"
  transform :: Transform
  transparentRegion :: Region

text \<open>
  The members of \<open>LayerBase\<close> the code below reads or writes. \<open>isOpaque\<close> is the answer
  of the virtual \<open>isOpaque()\<close> of the layer's class.
\<close>

record LayerBase =
  contentDirty :: bool
  mFiltering :: bool
  mNeedsFiltering :: bool
  mTransactionFlags :: "32 word"
  mPremultipliedAlpha :: bool
  isOpaque :: bool
  mCurrentState :: State
  mDrawingState :: State

section \<open>Transaction flags\<close>

text \<open>\<open>android_atomic_or\<close>: the old value is returned, the flags are or-ed in.\<close>

definition setTransactionFlags ::
  "32 word \<Rightarrow> 'a LayerBase_scheme \<Rightarrow> 32 word \<times> 'a LayerBase_scheme" where
  "setTransactionFlags fl L =
     (mTransactionFlags L, L\<lparr>mTransactionFlags := mTransactionFlags L OR fl\<rparr>)"

text \<open>\<open>android_atomic_and\<close> with the complement: the flags asked for are read and cleared.\<close>

definition getTransactionFlags ::
  "32 word \<Rightarrow> 'a LayerBase_scheme \<Rightarrow> 32 word \<times> 'a LayerBase_scheme" where
  "getTransactionFlags fl L =
     (mTransactionFlags L AND fl, L\<lparr>mTransactionFlags := mTransactionFlags L AND NOT fl\<rparr>)"

definition requestTransaction ::
  "headers \<Rightarrow> 'a LayerBase_scheme \<Rightarrow> bool \<times> 'a LayerBase_scheme" where
  "requestTransaction K L =
     (case setTransactionFlags (eTransactionNeeded K) L of
        (old, L') \<Rightarrow> (old AND eTransactionNeeded K = 0, L'))"

definition commitTransaction :: "'a LayerBase_scheme \<Rightarrow> 'a LayerBase_scheme" where
  "commitTransaction L = L\<lparr>mDrawingState := mCurrentState L\<rparr>"

section \<open>The state mutators\<close>

text \<open>
  Each returns what the C++ function returns, and the layer after the call. The order of
  the writes is the source's: the sequence, the value, then \<open>requestTransaction()\<close>, whose
  own result the mutators drop.
\<close>

definition setPosition ::
  "headers \<Rightarrow> f32 \<Rightarrow> f32 \<Rightarrow> 'a LayerBase_scheme \<Rightarrow> bool \<times> 'a LayerBase_scheme" where
  "setPosition K x y L =
     (if f32_eq (tx (transform (mCurrentState L))) x \<and> f32_eq (ty (transform (mCurrentState L))) y
      then (False, L)
      else
        let s1 = (mCurrentState L)\<lparr>sequence := sequence (mCurrentState L) + 1\<rparr>;
            s2 = s1\<lparr>transform := Transform_set x y (transform s1)\<rparr>
        in (True, snd (requestTransaction K (L\<lparr>mCurrentState := s2\<rparr>))))"

definition setLayer ::
  "headers \<Rightarrow> 32 word \<Rightarrow> 'a LayerBase_scheme \<Rightarrow> bool \<times> 'a LayerBase_scheme" where
  "setLayer K z' L =
     (if z (mCurrentState L) = z'
      then (False, L)
      else
        let s1 = (mCurrentState L)\<lparr>sequence := sequence (mCurrentState L) + 1\<rparr>;
            s2 = s1\<lparr>z := z'\<rparr>
        in (True, snd (requestTransaction K (L\<lparr>mCurrentState := s2\<rparr>))))"

definition setSize ::
  "headers \<Rightarrow> 32 word \<Rightarrow> 32 word \<Rightarrow> 'a LayerBase_scheme \<Rightarrow> bool \<times> 'a LayerBase_scheme" where
  "setSize K w' h' L =
     (if w (requested (mCurrentState L)) = w' \<and> h (requested (mCurrentState L)) = h'
      then (False, L)
      else
        let s1 = (mCurrentState L)\<lparr>requested := (requested (mCurrentState L))\<lparr>w := w'\<rparr>\<rparr>;
            s2 = s1\<lparr>requested := (requested s1)\<lparr>h := h'\<rparr>\<rparr>
        in (True, snd (requestTransaction K (L\<lparr>mCurrentState := s2\<rparr>))))"

definition setAlpha ::
  "headers \<Rightarrow> 8 word \<Rightarrow> 'a LayerBase_scheme \<Rightarrow> bool \<times> 'a LayerBase_scheme" where
  "setAlpha K alpha' L =
     (if alpha (mCurrentState L) = alpha'
      then (False, L)
      else
        let s1 = (mCurrentState L)\<lparr>sequence := sequence (mCurrentState L) + 1\<rparr>;
            s2 = s1\<lparr>alpha := alpha'\<rparr>
        in (True, snd (requestTransaction K (L\<lparr>mCurrentState := s2\<rparr>))))"

definition setMatrix ::
  "headers \<Rightarrow> matrix22_t \<Rightarrow> 'a LayerBase_scheme \<Rightarrow> bool \<times> 'a LayerBase_scheme" where
  "setMatrix K matrix L =
     (let s1 = (mCurrentState L)\<lparr>sequence := sequence (mCurrentState L) + 1\<rparr>;
          s2 = s1\<lparr>transform :=
                 Transform_set_matrix (dsdx matrix) (dsdy matrix) (dtdx matrix) (dtdy matrix)
                   (transform s1)\<rparr>
      in (True, snd (requestTransaction K (L\<lparr>mCurrentState := s2\<rparr>))))"

definition setTransparentRegionHint ::
  "headers \<Rightarrow> Region \<Rightarrow> 'a LayerBase_scheme \<Rightarrow> bool \<times> 'a LayerBase_scheme" where
  "setTransparentRegionHint K transparent L =
     (let s1 = (mCurrentState L)\<lparr>sequence := sequence (mCurrentState L) + 1\<rparr>;
          s2 = s1\<lparr>transparentRegion := transparent\<rparr>
      in (True, snd (requestTransaction K (L\<lparr>mCurrentState := s2\<rparr>))))"

text \<open>
  \<open>flags\<close> and \<open>mask\<close> are \<open>uint8_t\<close>; the expression is computed after promotion, so
  \<open>~mask\<close> has every bit above the eighth set.
\<close>

definition setFlags ::
  "headers \<Rightarrow> 8 word \<Rightarrow> 8 word \<Rightarrow> 'a LayerBase_scheme \<Rightarrow> bool \<times> 'a LayerBase_scheme" where
  "setFlags K flags' mask' L =
     (let newFlags = (flags (mCurrentState L) AND NOT (ucast mask')) OR (ucast flags' AND ucast mask')
      in if flags (mCurrentState L) = newFlags
         then (False, L)
         else
           let s1 = (mCurrentState L)\<lparr>sequence := sequence (mCurrentState L) + 1\<rparr>;
               s2 = s1\<lparr>flags := newFlags\<rparr>
           in (True, snd (requestTransaction K (L\<lparr>mCurrentState := s2\<rparr>))))"

definition setCrop ::
  "headers \<Rightarrow> Rect \<Rightarrow> 'a LayerBase_scheme \<Rightarrow> bool \<times> 'a LayerBase_scheme" where
  "setCrop K crop' L =
     (if crop (requested (mCurrentState L)) = crop'
      then (False, L)
      else
        let s1 = (mCurrentState L)\<lparr>sequence := sequence (mCurrentState L) + 1\<rparr>;
            s2 = s1\<lparr>requested := (requested s1)\<lparr>crop := crop'\<rparr>\<rparr>
        in (True, snd (requestTransaction K (L\<lparr>mCurrentState := s2\<rparr>))))"

definition setLayerStack ::
  "headers \<Rightarrow> 32 word \<Rightarrow> 'a LayerBase_scheme \<Rightarrow> bool \<times> 'a LayerBase_scheme" where
  "setLayerStack K layerStack' L =
     (if layerStack (mCurrentState L) = layerStack'
      then (False, L)
      else
        let s1 = (mCurrentState L)\<lparr>sequence := sequence (mCurrentState L) + 1\<rparr>;
            s2 = s1\<lparr>layerStack := layerStack'\<rparr>
        in (True, snd (requestTransaction K (L\<lparr>mCurrentState := s2\<rparr>))))"

section \<open>Committing a transaction\<close>

text \<open>
  \<open>doTransaction\<close>: the flags it returns and the layer after the commit. \<open>front\<close> and
  \<open>temp\<close> are references in the source, so \<open>temp\<close> is read after \<open>active\<close> was written.
\<close>

definition doTransaction ::
  "headers \<Rightarrow> 32 word \<Rightarrow> 'a LayerBase_scheme \<Rightarrow> 32 word \<times> 'a LayerBase_scheme" where
  "doTransaction K flags0 L =
     (let front = mDrawingState L;
          L1 = (if flags0 AND eDontUpdateGeometryState K \<noteq> 0 then L
                else L\<lparr>mCurrentState := (mCurrentState L)\<lparr>active := requested (mCurrentState L)\<rparr>\<rparr>);
          temp = mCurrentState L1;
          flags1 = (if active front \<noteq> active temp then flags0 OR eVisibleRegion K else flags0);
          (flags2, L2) =
            (if sequence temp \<noteq> sequence front
             then (flags1 OR eVisibleRegion K,
                   L1\<lparr>contentDirty := True,
                      mNeedsFiltering :=
                        (\<not> preserveRects K (transform temp)
                         \<or> SCALE K \<le> ucast (getType K (transform temp)))\<rparr>)
             else (flags1, L1))
      in (flags2, commitTransaction L2))"

section \<open>Observers of the committed snapshot\<close>

definition isVisible :: "headers \<Rightarrow> 'a LayerBase_scheme \<Rightarrow> bool" where
  "isVisible K L =
     (\<not> (flags (mDrawingState L) AND eLayerHidden K \<noteq> 0) \<and> alpha (mDrawingState L) \<noteq> 0)"

section \<open>Single-precision arithmetic\<close>

text \<open>
  \<open>computeCrop\<close> computes its insets in \<open>float\<close>. The operations it uses are modelled
  on the values: every result is the exact one rounded to the nearest \<open>float\<close>, ties to
  the even significand (24 bits, exponents from -126, infinity from \<open>2^128\<close> on).
  \<open>flog2 x\<close> is the exponent of a positive \<open>x\<close>, the \<open>e\<close> with \<open>2^e \<le> x < 2^(e+1)\<close>.
\<close>

definition flog2 :: "rat \<Rightarrow> int" where
  "flog2 x =
     (case quotient_of x of
        (p, q) \<Rightarrow> let d = bitlen p - bitlen q in if 2 powi d \<le> x then d else d - 1)"

definition round_half_even :: "rat \<Rightarrow> int" where
  "round_half_even m =
     (let f = \<lfloor>m\<rfloor>; d = m - of_int f
      in if d < 1 / 2 then f else if 1 / 2 < d then f + 1 else if even f then f else f + 1)"

definition f32_round :: "rat \<Rightarrow> f32" where
  "f32_round x =
     (if x = 0 then Finite 0
      else
        let e = max (flog2 \<bar>x\<bar>) (- 126);
            u = 2 powi (e - 23);
            v = of_int (round_half_even (x / u)) * u
        in if 2 powi 128 \<le> \<bar>v\<bar> then Infinity (x < 0) else Finite v)"

text \<open>The conversion of an \<open>int\<close> to \<open>float\<close>.\<close>

definition f32_of_int :: "int \<Rightarrow> f32" where
  "f32_of_int n = f32_round (of_int n)"

fun f32_div :: "f32 \<Rightarrow> f32 \<Rightarrow> f32" where
  "f32_div (Finite a) (Finite b) =
     (if b = 0 then (if a = 0 then NaN else Infinity (a < 0)) else f32_round (a / b))"
| "f32_div (Finite a) (Infinity t) = Finite 0"
| "f32_div (Infinity s) (Finite b) = Infinity (s \<noteq> (b < 0))"
| "f32_div (Infinity s) (Infinity t) = NaN"
| "f32_div NaN y = NaN"
| "f32_div x NaN = NaN"

fun f32_mul :: "f32 \<Rightarrow> f32 \<Rightarrow> f32" where
  "f32_mul (Finite a) (Finite b) = f32_round (a * b)"
| "f32_mul (Finite a) (Infinity t) = (if a = 0 then NaN else Infinity (t \<noteq> (a < 0)))"
| "f32_mul (Infinity s) (Finite b) = (if b = 0 then NaN else Infinity (s \<noteq> (b < 0)))"
| "f32_mul (Infinity s) (Infinity t) = Infinity (s \<noteq> t)"
| "f32_mul NaN y = NaN"
| "f32_mul x NaN = NaN"

fun ceilf :: "f32 \<Rightarrow> f32" where
  "ceilf (Finite a) = Finite (of_int \<lceil>a\<rceil>)"
| "ceilf (Infinity s) = Infinity s"
| "ceilf NaN = NaN"

text \<open>
  The conversion \<open>int(f)\<close> truncates towards zero; where the truncated value is no
  \<open>int\<close> (or \<open>f\<close> is not finite) the behaviour of the C++ program is undefined, which
  is \<open>None\<close> here.
\<close>

fun f32_to_int :: "f32 \<Rightarrow> int option" where
  "f32_to_int (Finite a) =
     (let t = (if 0 \<le> a then \<lfloor>a\<rfloor> else \<lceil>a\<rceil>)
      in if - (2 ^ 31) \<le> t \<and> t < 2 ^ 31 then Some t else None)"
| "f32_to_int (Infinity s) = None"
| "f32_to_int NaN = None"


text \<open>The result of signed \<open>int\<close> arithmetic: undefined outside the range of \<open>int\<close>.\<close>

definition int32 :: "int \<Rightarrow> int option" where
  "int32 x = (if - (2 ^ 31) \<le> x \<and> x < 2 ^ 31 then Some x else None)"

section \<open>Rectangles\<close>

text \<open>
  Modelled from the spec: the operations of \<open>Rect\<close> (ui/Rect.h and Rect.cpp are not under
  src/) that LayerBase.cpp calls. \<open>Rect(w, h)\<close> is the rectangle from the origin,
  \<open>intersect\<close> the intersection of two rectangles, and a rectangle \<open>isEmpty\<close> when it
  has no width or no height.
\<close>

definition Rect_wh :: "int \<Rightarrow> int \<Rightarrow> Rect" where
  "Rect_wh w' h' = \<lparr>left = 0, top_edge = 0, right = w', bottom = h'\<rparr>"

definition width :: "Rect \<Rightarrow> int" where
  "width r = right r - left r"

definition height :: "Rect \<Rightarrow> int" where
  "height r = bottom r - top_edge r"

definition isEmpty :: "Rect \<Rightarrow> bool" where
  "isEmpty r = (width r \<le> 0 \<or> height r \<le> 0)"

definition intersect :: "Rect \<Rightarrow> Rect \<Rightarrow> Rect" where
  "intersect a b =
     \<lparr>left = max (left a) (left b), top_edge = max (top_edge a) (top_edge b),
      right = min (right a) (right b), bottom = min (bottom a) (bottom b)\<rparr>"



section \<open>Geometry of the committed snapshot\<close>

text \<open>What the code asks of the display: its viewport and its transform.\<close>

record DisplayDevice =
  getViewport :: Rect
  getTransform :: Transform

text \<open>
  \<open>Rect(s.active.w, s.active.h)\<close>: the constructor takes \<open>int32_t\<close>, so the unsigned
  sizes are read as signed.
\<close>

definition computeBounds :: "'a LayerBase_scheme \<Rightarrow> Rect" where
  "computeBounds L =
     (let s = mDrawingState L;
          win = Rect_wh (sint (w (active s))) (sint (h (active s)))
      in if \<not> isEmpty (crop (active s)) then intersect win (crop (active s)) else win)"

text \<open>\<open>LayerBase::latchBuffer\<close>: an empty region, and nothing is written.\<close>

definition LayerBase_latchBuffer ::
  "bool \<Rightarrow> 'a LayerBase_scheme \<Rightarrow> Region \<times> bool \<times> 'a LayerBase_scheme" where
  "LayerBase_latchBuffer recomputeVisibleRegions L = ([], recomputeVisibleRegions, L)"

text \<open>
  \<open>getContentCrop()\<close> and \<open>getContentTransform()\<close> are virtual, and \<open>Layer\<close> overrides
  both (Layer.h:106-107). A call of one of them runs the body of the layer's class: the
  model takes the bodies of the class as a record, and \<open>LayerBase_class\<close> has the two
  bodies of LayerBase.cpp.
\<close>

record 'a virtuals =
  getContentCrop :: "'a LayerBase_scheme \<Rightarrow> Rect"
  getContentTransform :: "'a LayerBase_scheme \<Rightarrow> 32 word"

definition LayerBase_getContentCrop :: "'a LayerBase_scheme \<Rightarrow> Rect" where
  "LayerBase_getContentCrop L =
     (let s = mDrawingState L in Rect_wh (sint (w (active s))) (sint (h (active s))))"

definition LayerBase_getContentTransform :: "'a LayerBase_scheme \<Rightarrow> 32 word" where
  "LayerBase_getContentTransform L = 0"

definition LayerBase_class :: "'a virtuals" where
  "LayerBase_class =
     \<lparr>getContentCrop = LayerBase_getContentCrop,
      getContentTransform = LayerBase_getContentTransform\<rparr>"

text \<open>
  The window crop of \<open>computeCrop\<close> after its four steps: to layer-stack space, clipped
  by the viewport, back to layer space, clamped to the window's bounds.
\<close>

definition activeCrop :: "headers \<Rightarrow> DisplayDevice \<Rightarrow> 'a LayerBase_scheme \<Rightarrow> Rect" where
  "activeCrop K hw L =
     (let s = mDrawingState L;
          a1 = Transform_transform K (transform s) (crop (active s));
          a2 = intersect a1 (getViewport hw);
          a3 = Transform_transform K (Transform_inverse K (transform s)) a2
      in intersect a3 (Rect_wh (sint (w (active s))) (sint (h (active s)))))"

text \<open>
  The locals of \<open>computeCrop\<close> in its branch for a non-empty window crop:
  \<open>invTransform\<close>, \<open>winWidth\<close> and \<open>winHeight\<close> after the test for a rotation by 90
  degrees, and \<open>winCrop\<close>.
\<close>

definition rotated :: "'a virtuals \<Rightarrow> headers \<Rightarrow> 'a LayerBase_scheme \<Rightarrow> bool" where
  "rotated V K L = (getContentTransform V L AND NATIVE_WINDOW_TRANSFORM_ROT_90 K \<noteq> 0)"

definition invTransform :: "'a virtuals \<Rightarrow> headers \<Rightarrow> 'a LayerBase_scheme \<Rightarrow> 32 word" where
  "invTransform V K L =
     (if rotated V K L
      then getContentTransform V L
             XOR (NATIVE_WINDOW_TRANSFORM_FLIP_V K OR NATIVE_WINDOW_TRANSFORM_FLIP_H K)
      else getContentTransform V L)"

definition winWidth :: "'a virtuals \<Rightarrow> headers \<Rightarrow> 'a LayerBase_scheme \<Rightarrow> int" where
  "winWidth V K L =
     (if rotated V K L then sint (h (active (mDrawingState L)))
      else sint (w (active (mDrawingState L))))"

definition winHeight :: "'a virtuals \<Rightarrow> headers \<Rightarrow> 'a LayerBase_scheme \<Rightarrow> int" where
  "winHeight V K L =
     (if rotated V K L then sint (w (active (mDrawingState L)))
      else sint (h (active (mDrawingState L))))"

definition winCrop ::
  "'a virtuals \<Rightarrow> headers \<Rightarrow> DisplayDevice \<Rightarrow> 'a LayerBase_scheme \<Rightarrow> Rect" where
  "winCrop V K hw L =
     Rect_transform K (activeCrop K hw L) (invTransform V K L)
       (sint (w (active (mDrawingState L)))) (sint (h (active (mDrawingState L))))"

text \<open>\<open>int(ceilf(n * scale))\<close>, with \<open>n\<close> an \<open>int\<close>.\<close>

definition inset :: "int \<Rightarrow> f32 \<Rightarrow> int option" where
  "inset n scale = f32_to_int (ceilf (f32_mul (f32_of_int n) scale))"

text \<open>
  \<open>computeCrop\<close>. \<open>crop.width()\<close> and \<open>crop.height()\<close> are differences of \<open>int32_t\<close>,
  as the two differences with the window's size and the four updates of the crop are.
\<close>

definition computeCrop ::
  "'a virtuals \<Rightarrow> headers \<Rightarrow> DisplayDevice \<Rightarrow> 'a LayerBase_scheme \<Rightarrow> Rect option" where
  "computeCrop V K hw L =
     (let crop0 = getContentCrop V L;
          ac = activeCrop K hw L
      in if \<not> isEmpty ac then
           do {
             cw \<leftarrow> int32 (width crop0);
             ch \<leftarrow> int32 (height crop0);
             let xScale = f32_div (f32_of_int cw) (f32_of_int (winWidth V K L));
             let yScale = f32_div (f32_of_int ch) (f32_of_int (winHeight V K L));
             insetL \<leftarrow> inset (left (winCrop V K hw L)) xScale;
             insetT \<leftarrow> inset (top_edge (winCrop V K hw L)) yScale;
             dr \<leftarrow> int32 (winWidth V K L - right (winCrop V K hw L));
             insetR \<leftarrow> inset dr xScale;
             db \<leftarrow> int32 (winHeight V K L - bottom (winCrop V K hw L));
             insetB \<leftarrow> inset db yScale;
             l \<leftarrow> int32 (left crop0 + insetL);
             t \<leftarrow> int32 (top_edge crop0 + insetT);
             r \<leftarrow> int32 (right crop0 - insetR);
             b \<leftarrow> int32 (bottom crop0 - insetB);
             Some \<lparr>left = l, top_edge = t, right = r, bottom = b\<rparr>
           }
         else Some crop0)"

section \<open>The hardware composer's layer\<close>

text \<open>
  \<open>setGeometry\<close> acts on the composer's layer only through the calls it makes on it, so
  the model returns those calls in order. The whole is undefined where \<open>computeCrop\<close> is.
\<close>

datatype hwc_blending = HWC_BLENDING_PREMULT | HWC_BLENDING_COVERAGE

datatype hwc_call =
    hwc_setDefaultState
  | hwc_setTransform "32 word"
  | hwc_setBlending hwc_blending
  | hwc_setFrame Rect
  | hwc_setCrop Rect

definition setGeometry ::
  "'a virtuals \<Rightarrow> headers \<Rightarrow> DisplayDevice \<Rightarrow> 'a LayerBase_scheme
     \<Rightarrow> hwc_call list option" where
  "setGeometry V K hw L =
     (let s = mDrawingState L;
          finalTransform = getOrientation K (transform s);
          c1 = [hwc_setDefaultState,
                hwc_setTransform (if finalTransform AND ROT_INVALID K \<noteq> 0 then 0 else finalTransform)];
          c2 = (if \<not> isOpaque L \<or> alpha s \<noteq> 0xFF
                then [hwc_setBlending
                        (if mPremultipliedAlpha L then HWC_BLENDING_PREMULT
                         else HWC_BLENDING_COVERAGE)]
                else []);
          frame = intersect (Transform_transform K (transform s) (computeBounds L)) (getViewport hw);
          c3 = [hwc_setFrame (Transform_transform K (getTransform hw) frame)]
      in do {
           c \<leftarrow> computeCrop V K hw L;
           Some (c1 @ c2 @ c3 @ [hwc_setCrop c])
         })"

section \<open>The client-facing surface\<close>

datatype ISurface = BSurface

datatype abort = LOG_ALWAYS_FATAL string

record LayerBaseClient = LayerBase +
  mHasSurface :: bool
  mClientSurfaceBinder :: "ISurface option"

definition createSurface :: "'a LayerBaseClient_scheme \<Rightarrow> ISurface" where
  "createSurface L = BSurface"

text \<open>\<open>LOG_ALWAYS_FATAL_IF\<close> aborts the process: the call returns nothing.\<close>

definition getSurface ::
  "'a LayerBaseClient_scheme \<Rightarrow> abort + ISurface \<times> 'a LayerBaseClient_scheme" where
  "getSurface L =
     (if mHasSurface L
      then Inl (LOG_ALWAYS_FATAL ''LayerBaseClient::getSurface() has already been called'')
      else
        let L1 = L\<lparr>mHasSurface := True\<rparr>;
            s = createSurface L1
        in Inr (s, L1\<lparr>mClientSurfaceBinder := Some s\<rparr>))"

section \<open>The frame latch\<close>

text \<open>
  Modelled from the spec: \<open>Layer::onFrameAvailable\<close> and \<open>Layer::latchBuffer\<close>
  (Layer.cpp is not under src/; Layer.h declares them and the counter \<open>mQueuedFrames\<close>, a
  \<open>volatile int32_t\<close>). The spec, 4.5: \<open>onFrameAvailable\<close> only increments the pending
  counter and triggers a wake signal; \<open>latchBuffer\<close> is a no-op returning an empty region
  when the counter is zero, and otherwise decrements the counter by exactly one, adopts
  the most recent produced buffer, dropping the older ones, and refreshes the crop,
  transform and timestamp. The region it then returns comes from the buffers' sizes, a
  parameter here. A \<open>frame\<close> is a buffer the producer has queued, with its metadata.
\<close>

record frame =
  handle :: nat
  frame_crop :: Rect
  frame_transform :: "32 word"
  frame_timestamp :: "int option"

record Layer = LayerBaseClient +
  mQueuedFrames :: "32 word"
  mActiveBuffer :: "nat option"
  mCurrentCrop :: Rect
  mCurrentTransform :: "32 word"
  mTimestamp :: "int option"

text \<open>The result is the wake signal and the layer.\<close>

definition onFrameAvailable :: "'a Layer_scheme \<Rightarrow> bool \<times> 'a Layer_scheme" where
  "onFrameAvailable L = (True, L\<lparr>mQueuedFrames := mQueuedFrames L + 1\<rparr>)"

text \<open>
  The producer queues a frame and notifies the layer; the state is the layer and the
  frames produced and not yet latched, oldest first.
\<close>

definition queueBuffer ::
  "frame \<Rightarrow> 'a Layer_scheme \<times> frame list \<Rightarrow> 'a Layer_scheme \<times> frame list" where
  "queueBuffer f S = (snd (onFrameAvailable (fst S)), snd S @ [f])"

definition Layer_latchBuffer ::
  "('a Layer_scheme \<Rightarrow> frame \<Rightarrow> Region) \<Rightarrow> 'a Layer_scheme \<times> frame list
     \<Rightarrow> Region \<times> 'a Layer_scheme \<times> frame list" where
  "Layer_latchBuffer dirty S =
     (if mQueuedFrames (fst S) = 0 then ([], S)
      else
        let L1 = (fst S)\<lparr>mQueuedFrames := mQueuedFrames (fst S) - 1\<rparr>
        in if snd S = [] then ([], (L1, []))
           else
             let f = last (snd S)
             in (dirty (fst S) f,
                 (L1\<lparr>mActiveBuffer := Some (handle f), mCurrentCrop := frame_crop f,
                     mCurrentTransform := frame_transform f,
                     mTimestamp := frame_timestamp f\<rparr>, [])))"




section \<open>A call of any one mutator\<close>

text \<open>The nine mutators with their arguments, and the call of one of them on a layer.\<close>

datatype mutator =
    SetPosition f32 f32
  | SetLayer "32 word"
  | SetSize "32 word" "32 word"
  | SetAlpha "8 word"
  | SetMatrix matrix22_t
  | SetTransparentRegionHint Region
  | SetFlags "8 word" "8 word"
  | SetCrop Rect
  | SetLayerStack "32 word"

fun call :: "headers \<Rightarrow> mutator \<Rightarrow> 'a LayerBase_scheme \<Rightarrow> bool \<times> 'a LayerBase_scheme" where
  "call K (SetPosition x y) L = setPosition K x y L"
| "call K (SetLayer z') L = setLayer K z' L"
| "call K (SetSize w' h') L = setSize K w' h' L"
| "call K (SetAlpha alpha') L = setAlpha K alpha' L"
| "call K (SetMatrix matrix) L = setMatrix K matrix L"
| "call K (SetTransparentRegionHint transparent) L = setTransparentRegionHint K transparent L"
| "call K (SetFlags flags' mask') L = setFlags K flags' mask' L"
| "call K (SetCrop crop') L = setCrop K crop' L"
| "call K (SetLayerStack layerStack') L = setLayerStack K layerStack' L"

section \<open>Concrete inputs\<close>

text \<open>
  One assignment of the parameters, for evaluating the model: the enumerators with the
  values of Android's headers, the answers the \<open>Transform\<close> queries give on an
  identity transform, and a \<open>Rect::transform\<close> that flips horizontally, flips vertically
  and turns by 90 degrees, in this order, as the bits of its argument say.
\<close>

definition example_Rect_transform :: "Rect \<Rightarrow> 32 word \<Rightarrow> int \<Rightarrow> int \<Rightarrow> Rect" where
  "example_Rect_transform r xform width' height' =
     (let r1 = (if xform AND 1 \<noteq> 0
                then \<lparr>left = width' - right r, top_edge = top_edge r,
                      right = width' - left r, bottom = bottom r\<rparr>
                else r);
          r2 = (if xform AND 2 \<noteq> 0
                then \<lparr>left = left r1, top_edge = height' - bottom r1,
                      right = right r1, bottom = height' - top_edge r1\<rparr>
                else r1)
      in if xform AND 4 \<noteq> 0
         then \<lparr>left = height' - bottom r2, top_edge = left r2,
               right = height' - top_edge r2, bottom = right r2\<rparr>
         else r2)"

definition example_headers :: headers where
  "example_headers =
     \<lparr>eTransactionNeeded = 1, eDontUpdateGeometryState = 1, eVisibleRegion = 2,
      eLayerHidden = 1, SCALE = 4, ROT_INVALID = 128,
      NATIVE_WINDOW_TRANSFORM_FLIP_H = 1, NATIVE_WINDOW_TRANSFORM_FLIP_V = 2,
      NATIVE_WINDOW_TRANSFORM_ROT_90 = 4,
      getType = (\<lambda>t. 0), preserveRects = (\<lambda>t. True), getOrientation = (\<lambda>t. 0),
      Transform_transform = (\<lambda>t r. r), Transform_inverse = (\<lambda>t. t),
      Rect_transform = example_Rect_transform\<rparr>"

definition identity_transform :: Transform where
  "identity_transform =
     \<lparr>m_a = Finite 1, m_b = Finite 0, m_c = Finite 0, m_d = Finite 1,
      m_tx = Finite 0, m_ty = Finite 0\<rparr>"

text \<open>
  A layer as \<open>initStates(100, 50, 0)\<close> leaves it: opaque, not hidden, no crop, and the
  two snapshots equal.
\<close>

definition example_state :: State where
  "example_state =
     \<lparr>active = \<lparr>w = 100, h = 50, crop = \<lparr>left = 0, top_edge = 0, right = -1, bottom = -1\<rparr>\<rparr>,
      requested = \<lparr>w = 100, h = 50, crop = \<lparr>left = 0, top_edge = 0, right = -1, bottom = -1\<rparr>\<rparr>,
      z = 0, layerStack = 0, alpha = 255, flags = 0, sequence = 0,
      transform = identity_transform, transparentRegion = []\<rparr>"

definition example_layer :: LayerBase where
  "example_layer =
     \<lparr>contentDirty = False, mFiltering = False, mNeedsFiltering = False,
      mTransactionFlags = 0, mPremultipliedAlpha = True, isOpaque = True,
      mCurrentState = example_state, mDrawingState = example_state\<rparr>"

text \<open>A display of 1280 by 720, and the example layer with a crop within its window.\<close>

definition example_display :: DisplayDevice where
  "example_display =
     \<lparr>getViewport = \<lparr>left = 0, top_edge = 0, right = 1280, bottom = 720\<rparr>,
      getTransform = identity_transform\<rparr>"

definition cropped_state :: State where
  "cropped_state =
     example_state\<lparr>active := \<lparr>w = 100, h = 50,
                                crop = \<lparr>left = 10, top_edge = 5, right = 60, bottom = 45\<rparr>\<rparr>\<rparr>"

definition cropped_layer :: LayerBase where
  "cropped_layer = example_layer\<lparr>mCurrentState := cropped_state, mDrawingState := cropped_state\<rparr>"




text \<open>The cropped layer with a committed alpha of 128.\<close>

definition faded_layer :: LayerBase where
  "faded_layer = cropped_layer\<lparr>mDrawingState := cropped_state\<lparr>alpha := 128\<rparr>\<rparr>"

text \<open>Client layers and a buffer-backed layer, on top of the example layer.\<close>

definition example_client :: LayerBaseClient where
  "example_client = LayerBase.extend example_layer (LayerBaseClient.fields False None)"

definition example_buffer_layer :: Layer where
  "example_buffer_layer =
     LayerBaseClient.extend example_client
       (Layer.fields 0 None \<lparr>left = 0, top_edge = 0, right = -1, bottom = -1\<rparr> 0 None)"




definition frame1 :: frame where
  "frame1 = \<lparr>handle = 1, frame_crop = \<lparr>left = 0, top_edge = 0, right = 100, bottom = 50\<rparr>,
             frame_transform = 0, frame_timestamp = Some 1000\<rparr>"

definition frame2 :: frame where
  "frame2 = \<lparr>handle = 2, frame_crop = \<lparr>left = 0, top_edge = 0, right = 80, bottom = 40\<rparr>,
             frame_transform = 4, frame_timestamp = Some 2000\<rparr>"

text \<open>
  The layer of the claims about an idle commit: \<open>setSize(200, 50)\<close> on the example
  layer, then a commit that was asked not to update the geometry.
\<close>

definition resized_layer :: LayerBase where
  "resized_layer =
     snd (doTransaction example_headers (eDontUpdateGeometryState example_headers)
            (snd (setSize example_headers 200 50 example_layer)))"

section \<open>What the spec says of a mutator's argument\<close>

text \<open>
  The spec's contract compares the argument of a mutator with the pending value. These
  follow its words, for the comparison with what the code does: \<open>equals_pending\<close> says
  that the argument is the value the pending snapshot holds (floats compared with
  \<open>==\<close>, the flags after masking), \<open>compares\<close> names the mutators whose code makes
  that comparison, and \<open>self_equal\<close> that the argument is equal to itself, which
  only a NaN position is not.
\<close>

fun equals_pending :: "mutator \<Rightarrow> State \<Rightarrow> bool" where
  "equals_pending (SetPosition x y) s =
     (f32_eq (tx (transform s)) x \<and> f32_eq (ty (transform s)) y)"
| "equals_pending (SetLayer z') s = (z s = z')"
| "equals_pending (SetSize w' h') s = (w (requested s) = w' \<and> h (requested s) = h')"
| "equals_pending (SetAlpha alpha') s = (alpha s = alpha')"
| "equals_pending (SetMatrix matrix) s =
     (f32_eq (m_a (transform s)) (dsdx matrix) \<and> f32_eq (m_b (transform s)) (dsdy matrix)
      \<and> f32_eq (m_c (transform s)) (dtdx matrix) \<and> f32_eq (m_d (transform s)) (dtdy matrix))"
| "equals_pending (SetTransparentRegionHint transparent) s =
     (transparentRegion s = transparent)"
| "equals_pending (SetFlags flags' mask') s =
     (flags s = (flags s AND NOT (ucast mask')) OR (ucast flags' AND ucast mask'))"
| "equals_pending (SetCrop crop') s = (crop (requested s) = crop')"
| "equals_pending (SetLayerStack layerStack') s = (layerStack s = layerStack')"

fun compares :: "mutator \<Rightarrow> bool" where
  "compares (SetMatrix matrix) = False"
| "compares (SetTransparentRegionHint transparent) = False"
| "compares m = True"

fun self_equal :: "mutator \<Rightarrow> bool" where
  "self_equal (SetPosition x y) = (f32_eq x x \<and> f32_eq y y)"
| "self_equal m = True"

text \<open>The matrix the example layer already has.\<close>

definition identity_matrix :: matrix22_t where
  "identity_matrix = \<lparr>dsdx = Finite 1, dsdy = Finite 0, dtdx = Finite 0, dtdy = Finite 1\<rparr>"

section \<open>Facts about the mutators\<close>

lemma requestTransaction_fields:
  "mCurrentState (snd (requestTransaction K L)) = mCurrentState L"
  "mDrawingState (snd (requestTransaction K L)) = mDrawingState L"
  "mTransactionFlags (snd (requestTransaction K L)) = mTransactionFlags L OR eTransactionNeeded K"
  by (simp_all add: requestTransaction_def setTransactionFlags_def)

lemma call_committed: "mDrawingState (snd (call K m L)) = mDrawingState L"
  by (cases m)
    (simp_all add: setPosition_def setLayer_def setSize_def setAlpha_def setMatrix_def
      setTransparentRegionHint_def setFlags_def setCrop_def setLayerStack_def
      requestTransaction_fields Let_def)

lemma isVisible_committed:
  "mDrawingState L' = mDrawingState L \<Longrightarrow> isVisible K L' = isVisible K L"
  by (simp add: isVisible_def)

lemma doTransaction_commits:
  "alpha (mDrawingState (snd (doTransaction K fl L))) = alpha (mCurrentState L)"
  by (simp add: doTransaction_def commitTransaction_def Let_def split: prod.splits if_splits)

section \<open>The claims\<close>

text \<open>
  C10. \<open>isVisible\<close> reports a layer visible if and only if its committed flags do not
  contain the hidden bit and its committed alpha is not zero; so with a committed alpha
  of 0 it is false, whatever the flags are.
\<close>

theorem isVisible_iff:
  "(isVisible K L \<longleftrightarrow>
      flags (mDrawingState L) AND eLayerHidden K = 0 \<and> alpha (mDrawingState L) \<noteq> 0)
   \<and> isVisible K (L\<lparr>mDrawingState := (mDrawingState L)\<lparr>alpha := 0\<rparr>\<rparr>) = False"
  by (simp add: isVisible_def)

text \<open>
  C4. A call of any mutator leaves the committed snapshot as it was, and \<open>isVisible\<close>,
  which reads the committed snapshot, answers after the call what it answered before.
  \<open>setAlpha(128)\<close> returns true unless the pending alpha is 128 already; on a layer
  whose committed alpha is 255 the committed alpha is still 255 after it and \<open>isVisible\<close>
  still answers from it (visible unless hidden); the committed alpha is 128 only after
  \<open>doTransaction\<close>.
\<close>

theorem mutators_keep_committed:
  "mDrawingState (snd (call K m L)) = mDrawingState L
   \<and> isVisible K (snd (call K m L)) = isVisible K L
   \<and> (fst (setAlpha K 128 L) \<longleftrightarrow> alpha (mCurrentState L) \<noteq> 128)
   \<and> (alpha (mDrawingState L) = 255 \<longrightarrow>
        alpha (mDrawingState (snd (setAlpha K 128 L))) = 255
        \<and> (isVisible K (snd (setAlpha K 128 L)) \<longleftrightarrow>
             flags (mDrawingState L) AND eLayerHidden K = 0))
   \<and> alpha (mDrawingState (snd (doTransaction K fl (snd (setAlpha K 128 L))))) = 128"
proof -
  have frame: "mDrawingState (snd (call K m L)) = mDrawingState L"
    by (rule call_committed)
  have vis: "isVisible K (snd (call K m L)) = isVisible K L"
    by (rule isVisible_committed [OF frame])
  have ret: "fst (setAlpha K 128 L) \<longleftrightarrow> alpha (mCurrentState L) \<noteq> 128"
    by (simp add: setAlpha_def Let_def)
  have kept: "mDrawingState (snd (setAlpha K 128 L)) = mDrawingState L"
    using call_committed [of K "SetAlpha 128" L] by simp
  have pending: "alpha (mCurrentState (snd (setAlpha K 128 L))) = 128"
    by (simp add: setAlpha_def Let_def requestTransaction_fields)
  have scenario: "alpha (mDrawingState (snd (setAlpha K 128 L))) = 255
        \<and> (isVisible K (snd (setAlpha K 128 L)) \<longleftrightarrow>
             flags (mDrawingState L) AND eLayerHidden K = 0)"
    if "alpha (mDrawingState L) = 255"
    using that kept by (simp add: isVisible_def)
  have commit: "alpha (mDrawingState (snd (doTransaction K fl (snd (setAlpha K 128 L))))) = 128"
    using pending by (simp add: doTransaction_commits)
  show ?thesis
    using frame vis ret scenario commit by blast
qed

theorem mutators_keep_committed_witness:
  "alpha (mDrawingState example_layer) = 255
   \<and> fst (setAlpha example_headers 128 example_layer)
   \<and> alpha (mDrawingState (snd (setAlpha example_headers 128 example_layer))) = 255
   \<and> isVisible example_headers (snd (setAlpha example_headers 128 example_layer))
   \<and> alpha (mDrawingState (snd (doTransaction example_headers 0
        (snd (setAlpha example_headers 128 example_layer))))) = 128"
proof -
  have a: "alpha (mDrawingState example_layer) = 255 \<and> alpha (mCurrentState example_layer) \<noteq> 128"
    by (simp add: example_layer_def example_state_def)
  have f: "flags (mDrawingState example_layer) AND eLayerHidden example_headers = 0"
    by (simp add: example_layer_def example_state_def)
  show ?thesis
    using a f
      mutators_keep_committed [where K = example_headers and L = example_layer and fl = 0]
    by simp
qed

lemmas mutator_defs =
  setPosition_def setLayer_def setSize_def setAlpha_def setMatrix_def
  setTransparentRegionHint_def setFlags_def setCrop_def setLayerStack_def

lemma call_noop:
  "compares m \<Longrightarrow> equals_pending m (mCurrentState L) \<Longrightarrow> call K m L = (False, L)"
  by (cases m) (simp_all add: mutator_defs Let_def)

lemma call_returns:
  "compares m \<Longrightarrow> fst (call K m L) \<longleftrightarrow> \<not> equals_pending m (mCurrentState L)"
  by (cases m) (simp_all add: mutator_defs Let_def)

lemma call_unconditional:
  "\<not> compares m \<Longrightarrow>
     fst (call K m L)
     \<and> sequence (mCurrentState (snd (call K m L))) = sequence (mCurrentState L) + 1"
  by (cases m) (simp_all add: mutator_defs Let_def requestTransaction_fields)

lemma flags_masked_twice:
  fixes f :: "32 word"
  shows "((f AND NOT m) OR (g AND m)) AND NOT m OR (g AND m) = (f AND NOT m) OR (g AND m)"
  by (auto simp add: bit_eq_iff bit_simps)

lemma f32_eq_Transform_set:
  "f32_eq x x \<Longrightarrow> f32_eq (tx (Transform_set x y t)) x"
  "f32_eq y y \<Longrightarrow> f32_eq (ty (Transform_set x y t)) y"
  by (simp_all add: tx_def ty_def Transform_set_def)

lemma call_stores:
  "compares m \<Longrightarrow> self_equal m \<Longrightarrow> equals_pending m (mCurrentState (snd (call K m L)))"
proof (cases m)
  case (SetFlags f k)
  then show ?thesis
    by (simp add: setFlags_def Let_def requestTransaction_fields flags_masked_twice)
qed (simp_all add: mutator_defs Let_def requestTransaction_fields f32_eq_Transform_set)

lemma call_sequence:
  "fst (call K m L) \<Longrightarrow>
   mTransactionFlags (snd (call K m L)) = mTransactionFlags L OR eTransactionNeeded K
   \<and> sequence (mCurrentState (snd (call K m L))) =
       (case m of SetSize w' h' \<Rightarrow> sequence (mCurrentState L)
        | _ \<Rightarrow> sequence (mCurrentState L) + 1)"
  by (cases m) (auto simp add: mutator_defs Let_def requestTransaction_fields split: if_splits)

text \<open>
  C1, as the code has it. The seven mutators that compare (\<open>setPosition\<close>, \<open>setLayer\<close>,
  \<open>setSize\<close>, \<open>setAlpha\<close>, \<open>setFlags\<close>, \<open>setCrop\<close>, \<open>setLayerStack\<close>) return false
  and leave the whole layer as it was when the argument equals the pending value; they
  return true exactly when it differs; and a second call with the same argument (not a
  NaN) returns false. \<open>setMatrix\<close> and \<open>setTransparentRegionHint\<close> make no comparison:
  they return true and advance the sequence on every call.
\<close>

theorem unchanged_argument:
  "(compares m \<and> equals_pending m (mCurrentState L) \<longrightarrow> call K m L = (False, L))
   \<and> (compares m \<longrightarrow> (fst (call K m L) \<longleftrightarrow> \<not> equals_pending m (mCurrentState L)))
   \<and> (compares m \<and> self_equal m \<longrightarrow> \<not> fst (call K m (snd (call K m L))))
   \<and> (\<not> compares m \<longrightarrow>
        fst (call K m L)
        \<and> sequence (mCurrentState (snd (call K m L))) = sequence (mCurrentState L) + 1)"
proof -
  have second: "\<not> fst (call K m (snd (call K m L)))" if "compares m" and "self_equal m"
  proof -
    have "equals_pending m (mCurrentState (snd (call K m L)))"
      using that by (rule call_stores)
    with that(1) have "call K m (snd (call K m L)) = (False, snd (call K m L))"
      by (rule call_noop)
    then show ?thesis by simp
  qed
  show ?thesis
    using call_noop [of m L K] call_returns [of m K L] call_unconditional [of m K L] second
    by blast
qed

theorem unchanged_argument_witness:
  "compares (SetAlpha 128) \<and> self_equal (SetAlpha 128)
   \<and> equals_pending (SetAlpha 255) (mCurrentState example_layer)
   \<and> call example_headers (SetAlpha 255) example_layer = (False, example_layer)
   \<and> fst (call example_headers (SetAlpha 128) example_layer)
   \<and> \<not> fst (call example_headers (SetAlpha 128)
             (snd (call example_headers (SetAlpha 128) example_layer)))
   \<and> \<not> compares (SetMatrix identity_matrix)
   \<and> fst (call example_headers (SetMatrix identity_matrix) example_layer)"
proof -
  have e: "equals_pending (SetAlpha 255) (mCurrentState example_layer)"
    by (simp add: example_layer_def example_state_def)
  have n: "\<not> equals_pending (SetAlpha 128) (mCurrentState example_layer)"
    by (simp add: example_layer_def example_state_def)
  show ?thesis
    using e n
      unchanged_argument [where m = "SetAlpha 255" and K = example_headers and L = example_layer]
      unchanged_argument [where m = "SetAlpha 128" and K = example_headers and L = example_layer]
      unchanged_argument [where m = "SetMatrix identity_matrix" and K = example_headers
        and L = example_layer]
    by simp
qed

text \<open>
  C1 as stated fails: \<open>setMatrix\<close> with the matrix the pending snapshot already holds
  returns true, advances the sequence and marks a transaction.
\<close>

theorem setMatrix_same_counterexample:
  "equals_pending (SetMatrix identity_matrix) (mCurrentState example_layer)
   \<and> fst (setMatrix example_headers identity_matrix example_layer) = True
   \<and> sequence (mCurrentState (snd (setMatrix example_headers identity_matrix example_layer)))
       = sequence (mCurrentState example_layer) + 1
   \<and> mTransactionFlags (snd (setMatrix example_headers identity_matrix example_layer))
       \<noteq> mTransactionFlags example_layer
   \<and> fst (setMatrix example_headers identity_matrix
             (snd (setMatrix example_headers identity_matrix example_layer))) = True"
  by (simp add: setMatrix_def Let_def requestTransaction_fields example_layer_def
      example_state_def identity_matrix_def identity_transform_def example_headers_def)

text \<open>
  C2, as the code has it. A mutator call that returns true marks a transaction pending;
  it advances the pending sequence by exactly one, except \<open>setSize\<close>, which leaves the
  sequence as it was (the commit finds a resize by comparing the geometries).
\<close>

theorem changed_argument:
  "fst (call K m L) \<Longrightarrow>
   mTransactionFlags (snd (call K m L)) = mTransactionFlags L OR eTransactionNeeded K
   \<and> sequence (mCurrentState (snd (call K m L))) =
       (case m of SetSize w' h' \<Rightarrow> sequence (mCurrentState L)
        | _ \<Rightarrow> sequence (mCurrentState L) + 1)"
  by (rule call_sequence)

theorem changed_argument_witness:
  "fst (call example_headers (SetLayerStack 3) example_layer)
   \<and> mTransactionFlags (snd (call example_headers (SetLayerStack 3) example_layer)) = 1
   \<and> sequence (mCurrentState (snd (call example_headers (SetLayerStack 3) example_layer))) = 1
   \<and> fst (call example_headers (SetSize 200 50) example_layer)
   \<and> mTransactionFlags (snd (call example_headers (SetSize 200 50) example_layer)) = 1
   \<and> sequence (mCurrentState (snd (call example_headers (SetSize 200 50) example_layer))) = 0"
proof -
  have a: "fst (call example_headers (SetLayerStack 3) example_layer)"
    by (simp add: setLayerStack_def example_layer_def example_state_def)
  have b: "fst (call example_headers (SetSize 200 50) example_layer)"
    by (simp add: setSize_def example_layer_def example_state_def)
  have c: "mTransactionFlags example_layer = 0 \<and> eTransactionNeeded example_headers = 1
           \<and> sequence (mCurrentState example_layer) = 0"
    by (simp add: example_layer_def example_state_def example_headers_def)
  show ?thesis
    using a b c changed_argument [OF a] changed_argument [OF b]
    by simp
qed

text \<open>
  C2 as stated fails at \<open>setSize\<close>: the call returns true and the pending sequence is
  what it was.
\<close>

theorem setSize_sequence_counterexample:
  "fst (setSize example_headers 200 50 example_layer) = True
   \<and> sequence (mCurrentState (snd (setSize example_headers 200 50 example_layer)))
       = sequence (mCurrentState example_layer)
   \<and> sequence (mCurrentState (snd (setSize example_headers 200 50 example_layer)))
       \<noteq> sequence (mCurrentState example_layer) + 1"
  by (simp add: setSize_def Let_def requestTransaction_fields example_layer_def
      example_state_def)

lemma doTransaction_idle:
  "mCurrentState L = mDrawingState L \<Longrightarrow>
   flags0 AND eDontUpdateGeometryState K \<noteq> 0
     \<or> requested (mCurrentState L) = active (mCurrentState L) \<Longrightarrow>
   doTransaction K flags0 L = (flags0, L)"
  by (auto simp add: doTransaction_def commitTransaction_def Let_def)

text \<open>
  C3, as the code has it. When the pending snapshot equals the committed one and the
  commit has no resize to fold in (the pending requested geometry equals the pending
  active geometry, or the call carries \<open>eDontUpdateGeometryState\<close>), \<open>doTransaction\<close>
  called with flags that lack the visible-region bit returns those flags, so without
  that bit, and the committed snapshot and the rest of the layer are as before.
\<close>

theorem idle_commit:
  assumes "mCurrentState L = mDrawingState L"
    and "flags0 AND eDontUpdateGeometryState K \<noteq> 0
         \<or> requested (mCurrentState L) = active (mCurrentState L)"
    and "flags0 AND eVisibleRegion K = 0"
  shows "fst (doTransaction K flags0 L) AND eVisibleRegion K = 0
         \<and> mDrawingState (snd (doTransaction K flags0 L)) = mDrawingState L
         \<and> doTransaction K flags0 L = (flags0, L)"
  using assms doTransaction_idle [of L flags0 K] by simp

theorem idle_commit_witness:
  "mCurrentState example_layer = mDrawingState example_layer
   \<and> requested (mCurrentState example_layer) = active (mCurrentState example_layer)
   \<and> (0 :: 32 word) AND eVisibleRegion example_headers = 0
   \<and> doTransaction example_headers 0 example_layer = (0, example_layer)"
proof -
  have a: "mCurrentState example_layer = mDrawingState example_layer"
    by (simp add: example_layer_def)
  have b: "requested (mCurrentState example_layer) = active (mCurrentState example_layer)"
    by (simp add: example_layer_def example_state_def)
  have c: "(0 :: 32 word) AND eVisibleRegion example_headers = 0"
    by simp
  show ?thesis
    using a b c idle_commit [OF a disjI2 [OF b] c] by simp
qed

text \<open>
  C3 as stated fails: after \<open>setSize(200, 50)\<close> and a commit that keeps the geometry,
  the two snapshots are equal and no mutator has run since; the next \<open>doTransaction(0)\<close>
  folds the requested size in, returns the visible-region bit and changes the committed
  snapshot.
\<close>

theorem idle_commit_counterexample:
  "mCurrentState resized_layer = mDrawingState resized_layer
   \<and> (0 :: 32 word) AND eVisibleRegion example_headers = 0
   \<and> fst (doTransaction example_headers 0 resized_layer) AND eVisibleRegion example_headers \<noteq> 0
   \<and> mDrawingState (snd (doTransaction example_headers 0 resized_layer))
       \<noteq> mDrawingState resized_layer"
  by (simp add: resized_layer_def doTransaction_def commitTransaction_def setSize_def Let_def
      requestTransaction_fields example_layer_def example_state_def example_headers_def)

text \<open>
  C6. When \<open>doTransaction\<close> finds the pending sequence different from the committed one,
  the needs-filtering flag after the call is true if and only if the pending transform
  does not preserve rectangles or its type is \<open>SCALE\<close> or higher; the returned flags
  contain the visible-region bit and the content is marked dirty.
\<close>

theorem sequence_changed:
  assumes "sequence (mCurrentState L) \<noteq> sequence (mDrawingState L)"
  shows "(mNeedsFiltering (snd (doTransaction K flags0 L)) \<longleftrightarrow>
            \<not> preserveRects K (transform (mCurrentState L))
            \<or> SCALE K \<le> ucast (getType K (transform (mCurrentState L))))
         \<and> fst (doTransaction K flags0 L) AND eVisibleRegion K = eVisibleRegion K
         \<and> contentDirty (snd (doTransaction K flags0 L))"
  using assms
  by (auto simp add: doTransaction_def commitTransaction_def Let_def word_bw_assocs)

theorem sequence_changed_witness:
  "sequence (mCurrentState (snd (setAlpha example_headers 128 example_layer)))
     \<noteq> sequence (mDrawingState (snd (setAlpha example_headers 128 example_layer)))
   \<and> mNeedsFiltering (snd (doTransaction (example_headers\<lparr>getType := \<lambda>t. 4\<rparr>) 0
        (snd (setAlpha example_headers 128 example_layer))))
   \<and> \<not> mNeedsFiltering (snd (doTransaction example_headers 0
        (snd (setAlpha example_headers 128 example_layer))))
   \<and> contentDirty (snd (doTransaction example_headers 0
        (snd (setAlpha example_headers 128 example_layer))))"
proof -
  have a: "sequence (mCurrentState (snd (setAlpha example_headers 128 example_layer)))
     \<noteq> sequence (mDrawingState (snd (setAlpha example_headers 128 example_layer)))"
    by (simp add: setAlpha_def Let_def requestTransaction_fields example_layer_def
        example_state_def)
  have b: "preserveRects example_headers = (\<lambda>t. True) \<and> getType example_headers = (\<lambda>t. 0)
           \<and> SCALE example_headers = 4"
    by (simp add: example_headers_def)
  show ?thesis
    using a b
      sequence_changed [OF a, where K = "example_headers\<lparr>getType := \<lambda>t. 4\<rparr>" and ?flags0.0 = 0]
      sequence_changed [OF a, where K = example_headers and ?flags0.0 = 0]
    by simp
qed

section \<open>Facts about the rounding and the crop\<close>


text \<open>The rounding is to a nearest integer, and the exponent is the binary one.\<close>

lemma round_half_even_nearest: "\<bar>of_int (round_half_even m) - m\<bar> \<le> 1 / 2"
proof -
  have "of_int \<lfloor>m\<rfloor> \<le> m" "m < of_int \<lfloor>m\<rfloor> + 1" by linarith+
  then show ?thesis
    by (auto simp add: round_half_even_def Let_def abs_le_iff)
qed

































section \<open>The claims on geometry, the surface and the latch\<close>




text \<open>
  C7. Whenever \<open>computeCrop\<close> is defined, \<open>setGeometry\<close> makes its calls on the
  composer's layer, and among them: a \<open>setBlending\<close> if and only if the layer is not
  opaque or its committed alpha is not 255, with premultiplied blending when the layer
  uses premultiplied alpha and coverage otherwise; and, when the orientation of the
  committed transform has a bit of \<open>ROT_INVALID\<close>, \<open>setTransform(0)\<close> and no other
  transform. This is so for the bodies \<open>V\<close> of any class of layers.
\<close>

theorem setGeometry_calls:
  assumes "computeCrop V K hw L = Some c"
  shows "\<exists>calls. setGeometry V K hw L = Some calls
     \<and> ((\<exists>b. hwc_setBlending b \<in> set calls)
          \<longleftrightarrow> (\<not> isOpaque L \<or> alpha (mDrawingState L) \<noteq> 255))
     \<and> (\<forall>b. hwc_setBlending b \<in> set calls \<longrightarrow>
           b = (if mPremultipliedAlpha L then HWC_BLENDING_PREMULT else HWC_BLENDING_COVERAGE))
     \<and> (getOrientation K (transform (mDrawingState L)) AND ROT_INVALID K \<noteq> 0 \<longrightarrow>
           hwc_setTransform 0 \<in> set calls \<and> (\<forall>t. hwc_setTransform t \<in> set calls \<longrightarrow> t = 0))"
  using assms by (simp add: setGeometry_def Let_def)

theorem setGeometry_calls_witness:
  "computeCrop LayerBase_class (example_headers\<lparr>getOrientation := \<lambda>t. 132\<rparr>) example_display
      faded_layer
     = Some \<lparr>left = 10, top_edge = 5, right = 60, bottom = 45\<rparr>
   \<and> (\<exists>calls. setGeometry LayerBase_class (example_headers\<lparr>getOrientation := \<lambda>t. 132\<rparr>)
                  example_display faded_layer = Some calls
         \<and> hwc_setBlending HWC_BLENDING_PREMULT \<in> set calls
         \<and> hwc_setTransform 0 \<in> set calls)"
proof -
  have c: "computeCrop LayerBase_class (example_headers\<lparr>getOrientation := \<lambda>t. 132\<rparr>)
      example_display faded_layer
     = Some \<lparr>left = 10, top_edge = 5, right = 60, bottom = 45\<rparr>"
    by code_simp
  have a: "alpha (mDrawingState faded_layer) \<noteq> 255 \<and> mPremultipliedAlpha faded_layer"
    by (simp add: faded_layer_def cropped_layer_def cropped_state_def example_layer_def)
  have o: "getOrientation (example_headers\<lparr>getOrientation := \<lambda>t. 132\<rparr>)
             (transform (mDrawingState faded_layer))
           AND ROT_INVALID (example_headers\<lparr>getOrientation := \<lambda>t. 132\<rparr>) \<noteq> 0"
    by (simp add: example_headers_def)
  from setGeometry_calls [OF c] obtain calls where
    s: "setGeometry LayerBase_class (example_headers\<lparr>getOrientation := \<lambda>t. 132\<rparr>)
          example_display faded_layer = Some calls"
    and b1: "(\<exists>b. hwc_setBlending b \<in> set calls)
          \<longleftrightarrow> (\<not> isOpaque faded_layer \<or> alpha (mDrawingState faded_layer) \<noteq> 255)"
    and b2: "\<forall>b. hwc_setBlending b \<in> set calls \<longrightarrow>
           b = (if mPremultipliedAlpha faded_layer then HWC_BLENDING_PREMULT
                else HWC_BLENDING_COVERAGE)"
    and t: "getOrientation (example_headers\<lparr>getOrientation := \<lambda>t. 132\<rparr>)
             (transform (mDrawingState faded_layer))
           AND ROT_INVALID (example_headers\<lparr>getOrientation := \<lambda>t. 132\<rparr>) \<noteq> 0 \<longrightarrow>
           hwc_setTransform 0 \<in> set calls \<and> (\<forall>t. hwc_setTransform t \<in> set calls \<longrightarrow> t = 0)"
    by blast
  from b1 a obtain b where "hwc_setBlending b \<in> set calls" by blast
  with b2 a have "hwc_setBlending HWC_BLENDING_PREMULT \<in> set calls" by auto
  moreover from t o have "hwc_setTransform 0 \<in> set calls" by blast
  ultimately show ?thesis using c s by blast
qed

lemma sint_small: "N < 2 ^ 31 \<Longrightarrow> sint (word_of_nat N :: 32 word) = int N"
  by (simp add: signed_of_nat signed_take_bit_int_eq_self)

lemma word_of_nat_nonzero:
  assumes "0 < N" and "N < 2 ^ 31"
  shows "(word_of_nat N :: 32 word) \<noteq> 0"
proof
  assume "(word_of_nat N :: 32 word) = 0"
  then have "sint (word_of_nat N :: 32 word) = 0" by simp
  with sint_small [OF assms(2)] assms(1) show False by simp
qed

lemma sint_pred:
  assumes "0 < N" and "N < 2 ^ 31"
  shows "sint (word_of_nat N - 1 :: 32 word) = int N - 1"
proof -
  have "N - 1 < 2 ^ 31" using assms(2) by simp
  then show ?thesis
    using sint_small [of "N - 1"] assms(1) by (simp add: of_nat_diff)
qed

lemma funpow_onFrameAvailable:
  "mQueuedFrames (((snd \<circ> onFrameAvailable) ^^ N) L) = mQueuedFrames L + of_nat N"
  by (induction N arbitrary: L) (simp_all add: onFrameAvailable_def)

lemma fold_queueBuffer:
  "fold queueBuffer fs (L, q) =
     (L\<lparr>mQueuedFrames := mQueuedFrames L + of_nat (length fs)\<rparr>, q @ fs)"
  by (induction fs arbitrary: L q) (simp_all add: queueBuffer_def onFrameAvailable_def add.assoc)

text \<open>
  C8. From a counter of zero, after \<open>N\<close> calls of \<open>onFrameAvailable\<close> the counter is
  \<open>N\<close>, and after the producer has queued the frames \<open>fs\<close>, each with its call of
  \<open>onFrameAvailable\<close>, it is \<open>length fs\<close> (as the \<open>int32_t\<close> it is, so read as a
  number below \<open>2^31\<close>). One \<open>latchBuffer\<close> then leaves
  the counter at \<open>length fs - 1\<close>, adopts handle, crop, transform and timestamp of the
  newest frame and drops the older ones. With a counter of zero \<open>latchBuffer\<close> returns
  an empty region and changes nothing; \<open>LayerBase::latchBuffer\<close> always returns an empty
  region.
\<close>

theorem latch_counting:
  assumes "mQueuedFrames L = 0"
  shows "mQueuedFrames (((snd \<circ> onFrameAvailable) ^^ N) L) = word_of_nat N
    \<and> (N < 2 ^ 31 \<longrightarrow> sint (mQueuedFrames (((snd \<circ> onFrameAvailable) ^^ N) L)) = int N)
    \<and> mQueuedFrames (fst (fold queueBuffer fs (L, []))) = word_of_nat (length fs)
    \<and> snd (fold queueBuffer fs (L, [])) = fs
    \<and> (length fs < 2 ^ 31 \<longrightarrow>
         sint (mQueuedFrames (fst (fold queueBuffer fs (L, [])))) = int (length fs))
    \<and> (fs \<noteq> [] \<and> length fs < 2 ^ 31 \<longrightarrow>
         sint (mQueuedFrames (fst (snd (Layer_latchBuffer dirty (fold queueBuffer fs (L, []))))))
           = int (length fs) - 1
         \<and> mActiveBuffer (fst (snd (Layer_latchBuffer dirty (fold queueBuffer fs (L, [])))))
             = Some (handle (last fs))
         \<and> mCurrentCrop (fst (snd (Layer_latchBuffer dirty (fold queueBuffer fs (L, [])))))
             = frame_crop (last fs)
         \<and> mCurrentTransform (fst (snd (Layer_latchBuffer dirty (fold queueBuffer fs (L, [])))))
             = frame_transform (last fs)
         \<and> mTimestamp (fst (snd (Layer_latchBuffer dirty (fold queueBuffer fs (L, [])))))
             = frame_timestamp (last fs)
         \<and> snd (snd (Layer_latchBuffer dirty (fold queueBuffer fs (L, [])))) = [])
    \<and> Layer_latchBuffer dirty (L, q) = ([], (L, q))
    \<and> fst (LayerBase_latchBuffer recompute L) = []"
proof -
  have calls: "mQueuedFrames (((snd \<circ> onFrameAvailable) ^^ N) L) = word_of_nat N"
    using assms by (simp add: funpow_onFrameAvailable)
  have calls_int: "sint (mQueuedFrames (((snd \<circ> onFrameAvailable) ^^ N) L)) = int N"
    if "N < 2 ^ 31"
    using calls that by (simp add: sint_small)
  have counted: "sint (mQueuedFrames (fst (fold queueBuffer fs (L, [])))) = int (length fs)"
    if "length fs < 2 ^ 31"
    using assms that by (simp add: fold_queueBuffer sint_small)
  have latched:
    "sint (mQueuedFrames (fst (snd (Layer_latchBuffer dirty (fold queueBuffer fs (L, []))))))
       = int (length fs) - 1
     \<and> mActiveBuffer (fst (snd (Layer_latchBuffer dirty (fold queueBuffer fs (L, [])))))
         = Some (handle (last fs))
     \<and> mCurrentCrop (fst (snd (Layer_latchBuffer dirty (fold queueBuffer fs (L, [])))))
         = frame_crop (last fs)
     \<and> mCurrentTransform (fst (snd (Layer_latchBuffer dirty (fold queueBuffer fs (L, [])))))
         = frame_transform (last fs)
     \<and> mTimestamp (fst (snd (Layer_latchBuffer dirty (fold queueBuffer fs (L, [])))))
         = frame_timestamp (last fs)
     \<and> snd (snd (Layer_latchBuffer dirty (fold queueBuffer fs (L, [])))) = []"
    if "fs \<noteq> []" and "length fs < 2 ^ 31"
  proof -
    have pos: "0 < length fs" using that(1) by simp
    show ?thesis
      using assms that(1) word_of_nat_nonzero [OF pos that(2)] sint_pred [OF pos that(2)]
      by (simp add: fold_queueBuffer Layer_latchBuffer_def Let_def)
  qed
  have idle: "Layer_latchBuffer dirty (L, q) = ([], (L, q))"
    using assms by (simp add: Layer_latchBuffer_def)
  show ?thesis
    using assms calls calls_int counted latched idle
    by (simp add: fold_queueBuffer LayerBase_latchBuffer_def)
qed

theorem latch_counting_witness:
  "mQueuedFrames example_buffer_layer = 0
   \<and> sint (mQueuedFrames (((snd \<circ> onFrameAvailable) ^^ 3) example_buffer_layer)) = 3
   \<and> sint (mQueuedFrames (fst (fold queueBuffer [frame1, frame2] (example_buffer_layer, [])))) = 2
   \<and> sint (mQueuedFrames (fst (snd (Layer_latchBuffer (\<lambda>L f. [frame_crop f])
        (fold queueBuffer [frame1, frame2] (example_buffer_layer, [])))))) = 1
   \<and> mActiveBuffer (fst (snd (Layer_latchBuffer (\<lambda>L f. [frame_crop f])
        (fold queueBuffer [frame1, frame2] (example_buffer_layer, []))))) = Some 2
   \<and> Layer_latchBuffer (\<lambda>L f. [frame_crop f]) (example_buffer_layer, [frame1])
       = ([], (example_buffer_layer, [frame1]))"
proof -
  have z: "mQueuedFrames example_buffer_layer = 0"
    by (simp add: example_buffer_layer_def LayerBaseClient.extend_def Layer.fields_def)
  have n: "[frame1, frame2] \<noteq> [] \<and> length [frame1, frame2] < 2 ^ 31"
    by simp
  have l: "handle (last [frame1, frame2]) = 2"
    by (simp add: frame2_def)
  show ?thesis
    using z n l
      latch_counting [OF z, where fs = "[frame1, frame2]" and dirty = "\<lambda>L f. [frame_crop f]"
        and q = "[frame1]" and N = 3]
    by simp
qed

text \<open>
  C9. On a layer whose surface has not been handed out, \<open>getSurface\<close> returns the
  surface and marks it handed out, and the next call aborts; on a layer whose surface has
  been handed out every call aborts.
\<close>

theorem getSurface_once:
  "(\<not> mHasSurface L \<longrightarrow>
      getSurface L
        = Inr (BSurface, L\<lparr>mHasSurface := True, mClientSurfaceBinder := Some BSurface\<rparr>)
      \<and> mHasSurface (snd (projr (getSurface L)))
      \<and> getSurface (snd (projr (getSurface L)))
          = Inl (LOG_ALWAYS_FATAL ''LayerBaseClient::getSurface() has already been called''))
   \<and> (mHasSurface L \<longrightarrow>
        getSurface L
          = Inl (LOG_ALWAYS_FATAL ''LayerBaseClient::getSurface() has already been called''))"
  by (simp add: getSurface_def createSurface_def Let_def)

theorem getSurface_once_witness:
  "\<not> mHasSurface example_client
   \<and> \<not> isl (getSurface example_client)
   \<and> mHasSurface (snd (projr (getSurface example_client)))
   \<and> isl (getSurface (snd (projr (getSurface example_client))))"
proof -
  have f: "\<not> mHasSurface example_client"
    by (simp add: example_client_def LayerBase.extend_def LayerBaseClient.fields_def)
  have s: "mHasSurface (snd (projr (getSurface example_client)))"
    using f getSurface_once [of example_client] by simp
  show ?thesis
    using f s getSurface_once [of example_client]
      getSurface_once [of "snd (projr (getSurface example_client))"]
    by simp
qed

end
